theory Spec2Isabelle
  imports Main
begin

section \<open>Python values, exceptions and number formatting\<close>

text \<open>
  An exception object: the name of its class, whether that class derives from
  \<^verbatim>\<open>Exception\<close> (\<^verbatim>\<open>KeyboardInterrupt\<close>, \<^verbatim>\<open>SystemExit\<close> and
  \<^verbatim>\<open>GeneratorExit\<close> derive from \<^verbatim>\<open>BaseException\<close> only), and the text
  that \<^verbatim>\<open>str(e)\<close> returns.
\<close>

datatype exn = Exn (exn_type: string) (is_Exception: bool) (exn_str: string)

definition ValueError :: "string \<Rightarrow> exn" where
  "ValueError msg = Exn ''ValueError'' True msg"

definition TypeError :: "string \<Rightarrow> exn" where
  "TypeError msg = Exn ''TypeError'' True msg"

definition AttributeError :: "string \<Rightarrow> exn" where
  "AttributeError msg = Exn ''AttributeError'' True msg"

definition ZeroDivisionError :: "string \<Rightarrow> exn" where
  "ZeroDivisionError msg = Exn ''ZeroDivisionError'' True msg"

definition OverflowError :: "string \<Rightarrow> exn" where
  "OverflowError msg = Exn ''OverflowError'' True msg"

definition quoted :: "string \<Rightarrow> string" where
  "quoted s = CHR 0x27 # s @ [CHR 0x27]"

definition RecursionError :: exn where
  "RecursionError = Exn ''RecursionError'' True ''maximum recursion depth exceeded''"

text \<open>
  Python floats are not computed here. The float type is a type variable \<open>'f\<close> and the
  float operations the module reaches are the fields of a record that every function
  of the model takes as its first argument:
  \<^item> \<open>f_sub x y\<close> is \<^verbatim>\<open>x - y\<close>;
  \<^item> \<open>f_divmod x d\<close> is \<^verbatim>\<open>divmod(x, d)\<close> for a float \<open>x\<close> and a non-zero int \<open>d\<close>;
  \<^item> \<open>f_of_int n\<close> is \<^verbatim>\<open>float(n)\<close>, \<open>None\<close> when the int is too large;
  \<^item> \<open>f_fixed p x\<close> is \<^verbatim>\<open>format(x, '.pf')\<close>, the fixed-point text with \<open>p\<close> decimals;
  \<^item> \<open>f_timedelta_str x\<close> is \<^verbatim>\<open>str(timedelta(seconds=x))\<close>.
\<close>

record 'f float_ops =
  f_sub :: "'f \<Rightarrow> 'f \<Rightarrow> 'f"
  f_divmod :: "'f \<Rightarrow> int \<Rightarrow> 'f \<times> 'f"
  f_of_int :: "int \<Rightarrow> 'f option"
  f_fixed :: "nat \<Rightarrow> 'f \<Rightarrow> string"
  f_timedelta_str :: "'f \<Rightarrow> string"

datatype 'f pynum = PyInt int | PyFloat 'f

text \<open>\<^verbatim>\<open>divmod(x, d)\<close> with an int divisor: floor division on ints, the float
  operation on floats.\<close>

definition py_divmod :: "'f float_ops \<Rightarrow> 'f pynum \<Rightarrow> int \<Rightarrow> exn + ('f pynum \<times> 'f pynum)" where
  "py_divmod fl x d =
     (if d = 0 then Inl (ZeroDivisionError ''division by zero'')
      else (case x of
              PyInt n \<Rightarrow> Inr (PyInt (n div d), PyInt (n mod d))
            | PyFloat y \<Rightarrow> (case f_divmod fl y d of (q, r) \<Rightarrow> Inr (PyFloat q, PyFloat r))))"

subsection \<open>Decimal text of an int\<close>

definition digit_char :: "nat \<Rightarrow> char" where
  "digit_char d = ''0123456789'' ! (d mod 10)"

fun digits :: "nat \<Rightarrow> string" where
  "digits n = (if n < 10 then [digit_char n] else digits (n div 10) @ [digit_char n])"

declare digits.simps [simp del]

definition str_int :: "int \<Rightarrow> string" where
  "str_int n = (if n < 0 then CHR ''-'' # digits (nat (- n)) else digits (nat n))"

subsection \<open>Format specifications\<close>

text \<open>
  The format mini-language, for the fragment
  \<^verbatim>\<open>["0"][width]["." precision][type]\<close> with the presentation types \<^verbatim>\<open>d\<close> and
  \<^verbatim>\<open>f\<close>, which holds the three specifications of the source: \<^verbatim>\<open>.02d\<close>,
  \<^verbatim>\<open>02d\<close> and \<^verbatim>\<open>02.0f\<close>. Python's grammar has more (fill, alignment, sign,
  grouping, other types); a specification outside the fragment is answered here as an
  invalid one.
\<close>

record format_spec =
  zero_flag :: bool
  width :: nat
  precision :: "nat option"
  ftype :: "char option"

definition is_digit :: "char \<Rightarrow> bool" where
  "is_digit c = (c \<in> set ''0123456789'')"

definition digit_val :: "char \<Rightarrow> nat" where
  "digit_val c = length (takeWhile (\<lambda>k. k \<noteq> c) ''0123456789'')"

definition number_of :: "string \<Rightarrow> nat" where
  "number_of cs = foldl (\<lambda>acc c. 10 * acc + digit_val c) 0 cs"

definition parse_spec :: "string \<Rightarrow> exn + format_spec" where
  "parse_spec s =
     (let zero = (case s of [] \<Rightarrow> False | c # _ \<Rightarrow> c = CHR ''0'');
          s1 = (if zero then tl s else s);
          w = takeWhile is_digit s1;
          s2 = dropWhile is_digit s1;
          dot = (case s2 of [] \<Rightarrow> False | c # _ \<Rightarrow> c = CHR ''.'');
          p = (if dot then takeWhile is_digit (tl s2) else []);
          s3 = (if dot then dropWhile is_digit (tl s2) else s2);
          sp = \<lparr> zero_flag = zero, width = number_of w,
                 precision = (if dot then Some (number_of p) else None),
                 ftype = None \<rparr>
      in if dot \<and> p = [] then Inl (ValueError ''Format specifier missing precision'')
         else (case s3 of
                 [] \<Rightarrow> Inr sp
               | [c] \<Rightarrow> if c = CHR ''d'' \<or> c = CHR ''f'' then Inr (sp\<lparr>ftype := Some c\<rparr>)
                        else Inl (ValueError ''Invalid format specifier'')
               | _ \<Rightarrow> Inl (ValueError ''Invalid format specifier'')))"

text \<open>Numbers are right-aligned; with the \<^verbatim>\<open>0\<close> flag the zeros go between the sign
  and the digits.\<close>

definition pad_number :: "bool \<Rightarrow> nat \<Rightarrow> string \<Rightarrow> string" where
  "pad_number zero w s =
     (let n = w - length s
      in if zero
         then (case s of
                 [] \<Rightarrow> replicate n (CHR ''0'')
               | c # cs \<Rightarrow> if c = CHR ''-'' then c # replicate n (CHR ''0'') @ cs
                           else replicate n (CHR ''0'') @ s)
         else replicate n (CHR '' '') @ s)"

text \<open>
  \<^verbatim>\<open>format(v, spec)\<close> for a number. An int with type \<^verbatim>\<open>d\<close> (or none) refuses a
  precision; an int with type \<^verbatim>\<open>f\<close> is converted to a float first; a float refuses
  type \<^verbatim>\<open>d\<close>; a float with no type is outside the fragment (its text is the
  \<^verbatim>\<open>repr\<close>-like general format, which the source never asks for with a
  specification).
\<close>

definition format_float :: "'f float_ops \<Rightarrow> format_spec \<Rightarrow> 'f \<Rightarrow> string" where
  "format_float fl sp x =
     pad_number (zero_flag sp) (width sp)
       (f_fixed fl (case precision sp of None \<Rightarrow> 6 | Some p \<Rightarrow> p) x)"

definition format_num :: "'f float_ops \<Rightarrow> string \<Rightarrow> 'f pynum \<Rightarrow> exn + string" where
  "format_num fl spec v =
     (case parse_spec spec of
        Inl e \<Rightarrow> Inl e
      | Inr sp \<Rightarrow>
          (case v of
             PyInt n \<Rightarrow>
               (if ftype sp = Some (CHR ''f'')
                then (case f_of_int fl n of
                        None \<Rightarrow> Inl (OverflowError ''int too large to convert to float'')
                      | Some x \<Rightarrow> Inr (format_float fl sp x))
                else (case precision sp of
                        Some _ \<Rightarrow>
                          Inl (ValueError ''Precision not allowed in integer format specifier'')
                      | None \<Rightarrow> Inr (pad_number (zero_flag sp) (width sp) (str_int n))))
           | PyFloat x \<Rightarrow>
               (if ftype sp = Some (CHR ''f'') then Inr (format_float fl sp x)
                else if ftype sp = Some (CHR ''d'')
                then Inl (ValueError (''Unknown format code '' @ quoted ''d''
                       @ '' for object of type '' @ quoted ''float''))
                else Inl (ValueError ''Invalid format specifier''))))"

section \<open>The duration formatter\<close>

text \<open>
  \<^verbatim>\<open>
  def sec_to_hms(secs):
      m, s = divmod(secs, 60)
      h, m = divmod(m, 60)
      return '{:.02d}:{:02d}:{:02.0f}'.format(h, m, s)
  \<close>
  \<^verbatim>\<open>str.format\<close> renders the fields from left to right and stops at the first one
  that raises.
\<close>

definition sec_to_hms :: "'f float_ops \<Rightarrow> 'f pynum \<Rightarrow> exn + string" where
  "sec_to_hms fl secs =
     (case py_divmod fl secs 60 of
        Inl e \<Rightarrow> Inl e
      | Inr (m, s) \<Rightarrow>
          (case py_divmod fl m 60 of
             Inl e \<Rightarrow> Inl e
           | Inr (h, m) \<Rightarrow>
               (case format_num fl ''.02d'' h of
                  Inl e \<Rightarrow> Inl e
                | Inr hh \<Rightarrow>
                    (case format_num fl ''02d'' m of
                       Inl e \<Rightarrow> Inl e
                     | Inr mm \<Rightarrow>
                         (case format_num fl ''02.0f'' s of
                            Inl e \<Rightarrow> Inl e
                          | Inr ss \<Rightarrow> Inr (hh @ '':'' @ mm @ '':'' @ ss))))))"

section \<open>The process: text streams, the standard streams, the notifier\<close>

text \<open>
  Text streams (the real standard streams and the \<^verbatim>\<open>StringIO\<close> objects) are
  objects that several names may refer to, so they live in a store: \<open>streams w a\<close> is
  the text written so far to the stream at address \<open>a\<close>, and \<open>fresh w\<close> is the next
  unused address. \<^verbatim>\<open>sys.stdout\<close> and \<^verbatim>\<open>sys.stderr\<close> hold a reference or
  \<^verbatim>\<open>None\<close>. The notifier \<^verbatim>\<open>po.Client().send_message(message, title=title)\<close>
  is external: the model records the pair it was given in \<open>sent\<close>, in order.
  Streams are taken to be open and to accept any text.
\<close>

record world =
  streams :: "nat \<Rightarrow> string"
  fresh :: nat
  sys_stdout :: "nat option"
  sys_stderr :: "nat option"
  sent :: "(string \<times> string) list"

definition StringIO :: "world \<Rightarrow> nat \<times> world" where
  "StringIO w = (fresh w, w\<lparr>streams := (streams w)(fresh w := []), fresh := Suc (fresh w)\<rparr>)"

definition NoneType_has_no :: "string \<Rightarrow> exn" where
  "NoneType_has_no attr =
     AttributeError (quoted ''NoneType'' @ '' object has no attribute '' @ quoted attr)"

definition write_text :: "nat option \<Rightarrow> string \<Rightarrow> world \<Rightarrow> (exn + unit) \<times> world" where
  "write_text r s w =
     (case r of
        None \<Rightarrow> (Inl (NoneType_has_no ''write''), w)
      | Some a \<Rightarrow> (Inr (), w\<lparr>streams := (streams w)(a := streams w a @ s)\<rparr>))"

definition getvalue :: "nat option \<Rightarrow> world \<Rightarrow> exn + string" where
  "getvalue r w =
     (case r of
        None \<Rightarrow> Inl (NoneType_has_no ''getvalue'')
      | Some a \<Rightarrow> Inr (streams w a))"

definition send_message :: "string \<Rightarrow> string \<Rightarrow> world \<Rightarrow> world" where
  "send_message message title w = w\<lparr>sent := sent w @ [(message, title)]\<rparr>"

section \<open>The decorators\<close>

text \<open>
  A callable with the two attributes the decorators read (\<^verbatim>\<open>__module__\<close>,
  \<^verbatim>\<open>__name__\<close>) and its behaviour: from the arguments and the process state to a
  result or a raised exception, and the state it leaves.
\<close>

record ('a, 'v) callable =
  fn_module :: string
  fn_name :: string
  fn_call :: "'a \<Rightarrow> world \<Rightarrow> (exn + 'v) \<times> world"

text \<open>
  \<^verbatim>\<open>
  def push_exceptions(fn):
      def ret_fn(*args, **kwargs):
          try:
              start_time = time.time()
              return fn(*args, **kwargs)
          except Exception as e:
              fail_time = time.time()
              exec_time = timedelta(seconds=fail_time - start_time)
              title = "Error in {}:{} after {}".format(fn.__module__, fn.__name__, exec_time)
              message = str(e)
              po.Client().send_message(message, title=title)
              raise e
      return ret_fn
  \<close>
  The two readings of \<^verbatim>\<open>time.time()\<close> are arguments of the wrapper's model.
  \<^verbatim>\<open>except Exception\<close> lets an exception through whose class does not derive from
  \<^verbatim>\<open>Exception\<close>.
\<close>

definition push_exceptions ::
  "'f float_ops \<Rightarrow> ('a, 'v) callable \<Rightarrow> 'f \<Rightarrow> 'f \<Rightarrow> 'a \<Rightarrow> world \<Rightarrow> (exn + 'v) \<times> world" where
  "push_exceptions fl fn start_time fail_time args w =
     (case fn_call fn args w of
        (Inr result, w') \<Rightarrow> (Inr result, w')
      | (Inl e, w') \<Rightarrow>
          (if is_Exception e
           then (let exec_time = f_sub fl fail_time start_time;
                     title = ''Error in '' @ fn_module fn @ '':'' @ fn_name fn
                               @ '' after '' @ f_timedelta_str fl exec_time;
                     message = exn_str e
                 in (Inl e, send_message message title w'))
           else (Inl e, w')))"

text \<open>
  \<^verbatim>\<open>
  def push_success(fn):
      def ret_fn(*args, **kwargs):
          start_time = time.time()
          result = ret_fn(*args, **kwargs)
          exec_time = timedelta(seconds=time.time() - start_time)
          message = "Completed {}:{} after {}".format(fn.__module__, fn.__name__, exec_time)
          po.Client().send_message(message, title='Success!')
          return result
      return ret_fn
  \<close>
  The wrapper calls \<^verbatim>\<open>ret_fn\<close>, itself. The interpreter bounds the depth of the
  call stack: the first argument is the number of frames it still allows, and a call
  beyond it raises \<^verbatim>\<open>RecursionError\<close> (with a message that names the place the
  limit was hit; its common prefix stands for it here). \<open>starts k\<close> and \<open>ends k\<close>
  are the readings of \<^verbatim>\<open>time.time()\<close> of the frame \<open>k\<close> levels down, before and
  after its call.
\<close>

fun push_success ::
  "nat \<Rightarrow> 'f float_ops \<Rightarrow> ('a, 'v) callable \<Rightarrow> (nat \<Rightarrow> 'f) \<Rightarrow> (nat \<Rightarrow> 'f) \<Rightarrow> 'a \<Rightarrow> world
     \<Rightarrow> (exn + 'v) \<times> world" where
  "push_success 0 fl fn starts ends args w = (Inl RecursionError, w)"
| "push_success (Suc depth) fl fn starts ends args w =
     (let start_time = starts 0
      in case push_success depth fl fn (\<lambda>k. starts (Suc k)) (\<lambda>k. ends (Suc k)) args w of
           (Inl e, w') \<Rightarrow> (Inl e, w')
         | (Inr result, w') \<Rightarrow>
             (let exec_time = f_sub fl (ends 0) start_time;
                  message = ''Completed '' @ fn_module fn @ '':'' @ fn_name fn
                              @ '' after '' @ f_timedelta_str fl exec_time
              in (Inr result, send_message message ''Success!'' w')))"

section \<open>The scoped output-capture block\<close>

text \<open>
  \<^verbatim>\<open>
  class PushContext():
      def __init__(self):
          self.start_time = None
          self.block_label = ''
          self.old_stdout = None
          self.old_stderr = None
          self.my_stdout = None
          self.my_stderr = None
  \<close>
\<close>

record 'f PushContext =
  start_time :: "'f option"
  block_label :: string
  old_stdout :: "nat option"
  old_stderr :: "nat option"
  my_stdout :: "nat option"
  my_stderr :: "nat option"

definition init :: "'f PushContext" where
  "init = \<lparr> start_time = None, block_label = [], old_stdout = None, old_stderr = None,
            my_stdout = None, my_stderr = None \<rparr>"

text \<open>
  \<^verbatim>\<open>
      def __enter__(self, block_label):
          self.start_time = time.time()
          self.block_label = block_label
          self.old_stdout = sys.stdout
          sys.stdout = self.my_stdout = StringIO()
          self.old_stderr = sys.stderr
          sys.stderr = self.my_stderr = StringIO()
  \<close>
  The first argument is the reading of \<^verbatim>\<open>time.time()\<close>.
\<close>

definition enter :: "'f \<Rightarrow> string \<Rightarrow> 'f PushContext \<Rightarrow> world \<Rightarrow> 'f PushContext \<times> world" where
  "enter now label self w =
     (let self1 = self\<lparr>start_time := Some now, block_label := label,
                       old_stdout := sys_stdout w\<rparr>;
          (out, w1) = StringIO w;
          w2 = w1\<lparr>sys_stdout := Some out\<rparr>;
          self2 = self1\<lparr>my_stdout := Some out, old_stderr := sys_stderr w2\<rparr>;
          (err, w3) = StringIO w2;
          w4 = w3\<lparr>sys_stderr := Some err\<rparr>;
          self3 = self2\<lparr>my_stderr := Some err\<rparr>
      in (self3, w4))"

text \<open>
  \<^verbatim>\<open>
      def get_status_message(self):
          if self.my_stderr.getvalue():
              return 'failed',  self.my_stderr.getvalue()
          else:
              return 'succeeded', self.my_stdout.getvalue()
  \<close>
\<close>

definition get_status_message :: "'f PushContext \<Rightarrow> world \<Rightarrow> exn + (string \<times> string)" where
  "get_status_message self w =
     (case getvalue (my_stderr self) w of
        Inl e \<Rightarrow> Inl e
      | Inr captured \<Rightarrow>
          (if captured \<noteq> []
           then (case getvalue (my_stderr self) w of
                   Inl e \<Rightarrow> Inl e
                 | Inr err \<Rightarrow> Inr (''failed'', err))
           else (case getvalue (my_stdout self) w of
                   Inl e \<Rightarrow> Inl e
                 | Inr out \<Rightarrow> Inr (''succeeded'', out))))"

text \<open>
  \<^verbatim>\<open>
      def __exit__(self):
          sys.stdout = self.old_stdout
          sys.stderr = self.old_stderr
          exectime = time.time() - self.start_time
          status, message = self.get_status_message()
          if status == 'failed':
              sys.stderr.write(message)
          else:
              sys.stdout.write(message)
          po.Client().send_message(message,
              title='{} {} after {}'.format(self.block_label, status, sec_to_hms(exectime)))
  \<close>
  The second argument is the reading of \<^verbatim>\<open>time.time()\<close>, a float, so \<^verbatim>\<open>exectime\<close>
  is a float. The title is computed before \<^verbatim>\<open>send_message\<close> is called.
\<close>

definition exit :: "'f float_ops \<Rightarrow> 'f \<Rightarrow> 'f PushContext \<Rightarrow> world \<Rightarrow> (exn + unit) \<times> world" where
  "exit fl now self w =
     (let w1 = w\<lparr>sys_stdout := old_stdout self, sys_stderr := old_stderr self\<rparr>
      in case start_time self of
           None \<Rightarrow> (Inl (TypeError (''unsupported operand type(s) for -: '' @ quoted ''float''
                                      @ '' and '' @ quoted ''NoneType'')), w1)
         | Some t0 \<Rightarrow>
             (let exectime = f_sub fl now t0
              in case get_status_message self w1 of
                   Inl e \<Rightarrow> (Inl e, w1)
                 | Inr (status, message) \<Rightarrow>
                     (case (if status = ''failed'' then write_text (sys_stderr w1) message w1
                            else write_text (sys_stdout w1) message w1) of
                        (Inl e, w2) \<Rightarrow> (Inl e, w2)
                      | (Inr _, w2) \<Rightarrow>
                          (case sec_to_hms fl (PyFloat exectime) of
                             Inl e \<Rightarrow> (Inl e, w2)
                           | Inr hms \<Rightarrow>
                               (Inr (), send_message message
                                          (block_label self @ '' '' @ status
                                             @ '' after '' @ hms) w2)))))"

text \<open>
  The methods take a label on entry and no exception triple on exit, so a caller
  brackets the body by hand. \<open>try_finally\<close> is Python's \<^verbatim>\<open>try: ... finally: ...\<close>:
  the clean-up runs on both outcomes of the body, and an exception it raises replaces
  the body's outcome. \<open>scoped\<close> is
  \<^verbatim>\<open>
  ctx = PushContext()
  ctx.__enter__(label)
  try:
      body()
  finally:
      ctx.__exit__()
  \<close>
\<close>

definition try_finally ::
  "(world \<Rightarrow> (exn + 'v) \<times> world) \<Rightarrow> (world \<Rightarrow> (exn + unit) \<times> world) \<Rightarrow> world
     \<Rightarrow> (exn + 'v) \<times> world" where
  "try_finally body cleanup w =
     (case body w of
        (r, w1) \<Rightarrow>
          (case cleanup w1 of
             (Inl e, w2) \<Rightarrow> (Inl e, w2)
           | (Inr _, w2) \<Rightarrow> (r, w2)))"

definition scoped ::
  "'f float_ops \<Rightarrow> 'f \<Rightarrow> 'f \<Rightarrow> string \<Rightarrow> (world \<Rightarrow> (exn + 'v) \<times> world) \<Rightarrow> world
     \<Rightarrow> (exn + 'v) \<times> world" where
  "scoped fl t_enter t_exit label body w =
     (case enter t_enter label init w of
        (ctx, w1) \<Rightarrow> try_finally body (exit fl t_exit ctx) w1)"

text \<open>
  Python's \<^verbatim>\<open>with PushContext(): body\<close> calls the methods itself:
  \<^verbatim>\<open>__enter__\<close> with no argument besides the object, and after the body
  \<^verbatim>\<open>__exit__\<close> with three (the exception's type, value and traceback, or three
  \<^verbatim>\<open>None\<close>), whose falsy result lets the body's exception go on. A call with the
  wrong number of arguments raises \<^verbatim>\<open>TypeError\<close> before the method's body runs
  (the message texts are those of Python 3.10 and later).
  \<open>call_enter\<close> and \<open>call_exit\<close> are calls of the two methods with the given extra
  positional arguments, checked against the signatures
  \<^verbatim>\<open>def __enter__(self, block_label)\<close> and \<^verbatim>\<open>def __exit__(self)\<close>.
\<close>

definition call_enter ::
  "'f \<Rightarrow> string list \<Rightarrow> 'f PushContext \<Rightarrow> world \<Rightarrow> (exn + 'f PushContext) \<times> world" where
  "call_enter now args self w =
     (case args of
        [] \<Rightarrow> (Inl (TypeError (''PushContext.__enter__() missing 1 required positional ''
                                 @ ''argument: '' @ quoted ''block_label'')), w)
      | [label] \<Rightarrow> (case enter now label self w of (self', w') \<Rightarrow> (Inr self', w'))
      | _ \<Rightarrow> (Inl (TypeError (''PushContext.__enter__() takes 2 positional arguments but ''
                                @ str_int (int (Suc (length args))) @ '' were given'')), w))"

definition call_exit ::
  "'f float_ops \<Rightarrow> 'f \<Rightarrow> nat \<Rightarrow> 'f PushContext \<Rightarrow> world \<Rightarrow> (exn + unit) \<times> world" where
  "call_exit fl now nargs self w =
     (if nargs = 0 then exit fl now self w
      else (Inl (TypeError (''PushContext.__exit__() takes 1 positional argument but ''
                              @ str_int (int (Suc nargs)) @ '' were given'')), w))"

definition with_statement ::
  "'f float_ops \<Rightarrow> 'f \<Rightarrow> 'f \<Rightarrow> (world \<Rightarrow> (exn + 'v) \<times> world) \<Rightarrow> world
     \<Rightarrow> (exn + 'v) \<times> world" where
  "with_statement fl t_enter t_exit body w =
     (case call_enter t_enter [] init w of
        (Inl e, w1) \<Rightarrow> (Inl e, w1)
      | (Inr ctx, w1) \<Rightarrow>
          (case body w1 of
             (r, w2) \<Rightarrow>
               (case call_exit fl t_exit 3 ctx w2 of
                  (Inl e, w3) \<Rightarrow> (Inl e, w3)
                | (Inr _, w3) \<Rightarrow> (r, w3))))"

section \<open>Concrete inputs\<close>

text \<open>
  An instance of the float operations for examples: floats whose value is a whole
  number of seconds, held as ints. \<^verbatim>\<open>str(timedelta(seconds=x))\<close> is then
  \<^verbatim>\<open>H:MM:SS\<close>, after \<^verbatim>\<open>D day[s], \<close> when the day count is not zero.
\<close>

definition timedelta_str :: "int \<Rightarrow> string" where
  "timedelta_str x =
     (let days = x div 86400; secs = x mod 86400;
          mm = secs div 60; ss = secs mod 60;
          hh = mm div 60; mm = mm mod 60;
          s = str_int hh @ '':'' @ pad_number True 2 (str_int mm)
                @ '':'' @ pad_number True 2 (str_int ss)
      in if days = 0 then s
         else str_int days @ (if \<bar>days\<bar> = 1 then '' day, '' else '' days, '') @ s)"

definition whole_seconds :: "int float_ops" where
  "whole_seconds =
     \<lparr> f_sub = (\<lambda>x y. x - y),
       f_divmod = (\<lambda>x d. (x div d, x mod d)),
       f_of_int = Some,
       f_fixed = (\<lambda>p x. str_int x @ (if p = 0 then [] else CHR ''.'' # replicate p (CHR ''0''))),
       f_timedelta_str = timedelta_str \<rparr>"

text \<open>A process whose standard streams are the streams 0 and 1, with nothing written
  and nothing sent.\<close>

definition w0 :: world where
  "w0 = \<lparr> streams = (\<lambda>_. []), fresh = 2, sys_stdout = Some 0, sys_stderr = Some 1,
          sent = [] \<rparr>"

text \<open>\<^verbatim>\<open>def answer(): return 42\<close>, \<^verbatim>\<open>def boom(): raise ValueError("boom")\<close>
  and \<^verbatim>\<open>def interrupted(): raise KeyboardInterrupt()\<close>, in module
  \<^verbatim>\<open>__main__\<close>.\<close>

definition answer :: "(unit, int) callable" where
  "answer = \<lparr> fn_module = ''__main__'', fn_name = ''answer'',
              fn_call = (\<lambda>_ w. (Inr 42, w)) \<rparr>"

definition boom :: "(unit, int) callable" where
  "boom = \<lparr> fn_module = ''__main__'', fn_name = ''boom'',
            fn_call = (\<lambda>_ w. (Inl (ValueError ''boom''), w)) \<rparr>"

definition interrupted :: "(unit, int) callable" where
  "interrupted = \<lparr> fn_module = ''__main__'', fn_name = ''interrupted'',
                   fn_call = (\<lambda>_ w. (Inl (Exn ''KeyboardInterrupt'' False []), w)) \<rparr>"

text \<open>Bodies of a scoped block: \<^verbatim>\<open>print\<close>-like writes to the current standard
  streams, and a body that raises without writing.\<close>

definition write_out :: "string \<Rightarrow> world \<Rightarrow> (exn + unit) \<times> world" where
  "write_out s w = write_text (sys_stdout w) s w"

definition write_err :: "string \<Rightarrow> world \<Rightarrow> (exn + unit) \<times> world" where
  "write_err s w = write_text (sys_stderr w) s w"

definition raising :: "exn \<Rightarrow> world \<Rightarrow> (exn + unit) \<times> world" where
  "raising e w = (Inl e, w)"

text \<open>The session and the process after \<^verbatim>\<open>ctx.__enter__('job')\<close> in \<open>w0\<close>, with the
  clock reading \<open>t\<close>.\<close>

definition entered_ctx :: "'f \<Rightarrow> 'f PushContext" where
  "entered_ctx t = fst (enter t ''job'' init w0)"

definition entered_world :: world where
  "entered_world = snd (enter (0::int) ''job'' init w0)"

section \<open>Facts about the formatter\<close>

lemma parse_spec_hours:
  "parse_spec ''.02d'' =
     Inr \<lparr>zero_flag = False, width = 0, precision = Some 2, ftype = Some (CHR ''d'')\<rparr>"
  by (simp add: parse_spec_def is_digit_def number_of_def digit_val_def)

lemma parse_spec_minutes:
  "parse_spec ''02d'' =
     Inr \<lparr>zero_flag = True, width = 2, precision = None, ftype = Some (CHR ''d'')\<rparr>"
  by (simp add: parse_spec_def is_digit_def number_of_def digit_val_def)

lemma parse_spec_seconds:
  "parse_spec ''02.0f'' =
     Inr \<lparr>zero_flag = True, width = 2, precision = Some 0, ftype = Some (CHR ''f'')\<rparr>"
  by (simp add: parse_spec_def is_digit_def number_of_def digit_val_def)

text \<open>The minutes and seconds fields alone would render as the two-digit fields the
  format string is after.\<close>

lemma format_num_minutes_5: "format_num fl ''02d'' (PyInt 5) = Inr ''05''"
  by (simp add: format_num_def parse_spec_minutes pad_number_def str_int_def digits.simps
      digit_char_def)

lemma format_num_seconds_59: "format_num whole_seconds ''02.0f'' (PyInt 59) = Inr ''59''"
  by (simp add: format_num_def parse_spec_seconds format_float_def pad_number_def
      whole_seconds_def str_int_def digits.simps digit_char_def)

text \<open>The hours field \<^verbatim>\<open>{:.02d}\<close> reads \<^verbatim>\<open>02\<close> as a precision, which an int
  refuses; a float refuses the type \<^verbatim>\<open>d\<close>. So the formatter raises on every number.\<close>

lemma sec_to_hms_int:
  "sec_to_hms fl (PyInt n) =
     Inl (ValueError ''Precision not allowed in integer format specifier'')"
  by (simp add: sec_to_hms_def py_divmod_def format_num_def parse_spec_hours)

lemma sec_to_hms_float:
  "sec_to_hms fl (PyFloat x) =
     Inl (ValueError (''Unknown format code '' @ quoted ''d''
                        @ '' for object of type '' @ quoted ''float''))"
  by (simp add: sec_to_hms_def py_divmod_def format_num_def parse_spec_hours
      split: prod.splits)

text \<open>
  C1. Specified: for the durations 0, 59, 60, 3599, 3600 and 86399 the formatter returns
  00:00:00, 00:00:59, 00:01:00, 00:59:59, 01:00:00 and 23:59:59. The code: on each of
  the six it raises \<^verbatim>\<open>ValueError\<close> and returns no string.
\<close>

theorem sec_to_hms_raises_on_listed_durations:
  "map (sec_to_hms fl) [PyInt 0, PyInt 59, PyInt 60, PyInt 3599, PyInt 3600, PyInt 86399] =
     replicate 6 (Inl (ValueError ''Precision not allowed in integer format specifier''))"
  by (simp add: sec_to_hms_int numeral_eq_Suc)

section \<open>Facts about the decorators\<close>

lemma timedelta_str_3: "timedelta_str 3 = ''0:00:03''"
  by code_simp

text \<open>
  C2, as amended. When the callable raises an exception whose class derives from
  \<^verbatim>\<open>Exception\<close>, the wrapper sends exactly one notification after whatever the
  callable did: its message is \<^verbatim>\<open>str(e)\<close>, its title is
  \<^verbatim>\<open>Error in {module}:{name} after {elapsed}\<close> with the elapsed time as the text of
  the \<^verbatim>\<open>timedelta\<close>; then the same exception is raised to the caller.
\<close>

theorem push_exceptions_reports_and_reraises:
  assumes "fn_call fn args w = (Inl e, w')" and "is_Exception e"
  shows "push_exceptions fl fn t_start t_fail args w =
           (Inl e,
            w'\<lparr>sent := sent w' @
                  [(exn_str e,
                    ''Error in '' @ fn_module fn @ '':'' @ fn_name fn @ '' after ''
                      @ f_timedelta_str fl (f_sub fl t_fail t_start))]\<rparr>)"
  using assms by (simp add: push_exceptions_def send_message_def)

theorem push_exceptions_reports_and_reraises_witness:
  "fn_call boom () w0 = (Inl (ValueError ''boom''), w0) \<and>
   is_Exception (ValueError ''boom'') \<and>
   push_exceptions whole_seconds boom 10 13 () w0 =
     (Inl (ValueError ''boom''),
      w0\<lparr>sent := [(''boom'', ''Error in __main__:boom after 0:00:03'')]\<rparr>)"
proof -
  have raised: "fn_call boom () w0 = (Inl (ValueError ''boom''), w0)"
    by (simp add: boom_def)
  have derived: "is_Exception (ValueError ''boom'')"
    by (simp add: ValueError_def)
  have elapsed: "f_timedelta_str whole_seconds (f_sub whole_seconds 13 10) = ''0:00:03''"
    by (simp add: whole_seconds_def timedelta_str_3)
  have attrs: "fn_module boom = ''__main__''" "fn_name boom = ''boom''"
    by (simp_all add: boom_def)
  have "sent w0 = []" and "exn_str (ValueError ''boom'') = ''boom''"
    by (simp_all add: w0_def ValueError_def)
  with push_exceptions_reports_and_reraises [OF raised derived, of whole_seconds 10 13]
  show ?thesis
    by (simp add: raised derived elapsed attrs)
qed

text \<open>
  C2, as stated, at a callable that raises \<^verbatim>\<open>KeyboardInterrupt\<close>: the handler
  \<^verbatim>\<open>except Exception\<close> does not match, the exception propagates and nothing is sent.
\<close>

theorem push_exceptions_KeyboardInterrupt_unreported:
  "fst (push_exceptions whole_seconds interrupted 10 13 () w0) =
     Inl (Exn ''KeyboardInterrupt'' False []) \<and>
   sent (snd (push_exceptions whole_seconds interrupted 10 13 () w0)) = []"
  by (simp add: push_exceptions_def interrupted_def w0_def)

text \<open>
  C3. When the callable returns normally, the wrapper returns the same result and leaves
  the process exactly as the callable left it: the wrapper itself sends nothing.
\<close>

theorem push_exceptions_transparent_on_return:
  assumes "fn_call fn args w = (Inr result, w')"
  shows "push_exceptions fl fn t_start t_fail args w = (Inr result, w') \<and>
         sent (snd (push_exceptions fl fn t_start t_fail args w)) = sent w'"
  using assms by (simp add: push_exceptions_def)

theorem push_exceptions_transparent_on_return_witness:
  "fn_call answer () w0 = (Inr 42, w0) \<and>
   push_exceptions whole_seconds answer 10 13 () w0 = (Inr 42, w0) \<and>
   sent (snd (push_exceptions whole_seconds answer 10 13 () w0)) = []"
proof -
  have returned: "fn_call answer () w0 = (Inr 42, w0)"
    by (simp add: answer_def)
  show ?thesis
    using push_exceptions_transparent_on_return [OF returned, of whole_seconds 10 13] returned
    by (simp add: w0_def)
qed

text \<open>The recursion of \<^verbatim>\<open>push_success\<close> never reaches the callable: at every depth
  the innermost call raises \<^verbatim>\<open>RecursionError\<close>, and every frame above lets it
  through.\<close>

lemma push_success_unwinds:
  "push_success depth fl fn starts ends args w = (Inl RecursionError, w)"
  by (induction depth arbitrary: starts ends) simp_all

text \<open>
  C4. Specified: when the callable completes normally the wrapper sends one notification
  titled \<^verbatim>\<open>Success!\<close> and returns the callable's result. The code, at
  \<^verbatim>\<open>answer\<close>, which returns 42: the wrapper raises \<^verbatim>\<open>RecursionError\<close> and sends
  nothing, whatever depth the interpreter allows.
\<close>

theorem push_success_answer_raises:
  "fn_call answer () w0 = (Inr 42, w0) \<and>
   fst (push_success depth fl answer starts ends () w0) = Inl RecursionError \<and>
   sent (snd (push_success depth fl answer starts ends () w0)) = []"
  by (simp add: push_success_unwinds answer_def w0_def)

text \<open>
  C5. The wrapper of \<^verbatim>\<open>push_success\<close> calls itself and not the callable: whatever
  depth of recursion is allowed, the recursion uses it up, the call ends in
  \<^verbatim>\<open>RecursionError\<close> and never in a result, the process is left untouched (the
  callable was not run, nothing was sent), and a callable with any other behaviour gives
  the same outcome.
\<close>

theorem push_success_never_returns:
  "fst (push_success depth fl fn starts ends args w) = Inl RecursionError \<and>
   (\<forall>result. fst (push_success depth fl fn starts ends args w) \<noteq> Inr result) \<and>
   snd (push_success depth fl fn starts ends args w) = w \<and>
   push_success depth fl (fn\<lparr>fn_call := other\<rparr>) starts ends args w =
     push_success depth fl fn starts ends args w"
  by (simp add: push_success_unwinds)

section \<open>Facts about the scoped block\<close>

text \<open>What \<^verbatim>\<open>__enter__\<close> establishes: the start time and the label are recorded, the
  standard streams of the moment are saved, and two new empty sinks are both the
  session's capture sinks and the current standard streams.\<close>

lemma enter_establishes:
  assumes "enter t label self w = (self', w')"
  shows "start_time self' = Some t \<and> block_label self' = label \<and>
         old_stdout self' = sys_stdout w \<and> old_stderr self' = sys_stderr w \<and>
         my_stdout self' = Some (fresh w) \<and> my_stderr self' = Some (Suc (fresh w)) \<and>
         sys_stdout w' = Some (fresh w) \<and> sys_stderr w' = Some (Suc (fresh w)) \<and>
         streams w' (fresh w) = [] \<and> streams w' (Suc (fresh w)) = [] \<and>
         sent w' = sent w"
  using assms by (auto simp add: enter_def StringIO_def)

lemma enter_init_w0:
  "enter t ''job'' init w0 =
     (\<lparr> start_time = Some t, block_label = ''job'', old_stdout = Some 0, old_stderr = Some 1,
        my_stdout = Some 2, my_stderr = Some 3 \<rparr>,
      \<lparr> streams = (\<lambda>_. []), fresh = 4, sys_stdout = Some 2, sys_stderr = Some 3,
        sent = [] \<rparr>)"
  by (simp add: enter_def init_def w0_def StringIO_def fun_eq_iff)

lemma entered_ctx_fields:
  "entered_ctx t =
     \<lparr> start_time = Some t, block_label = ''job'', old_stdout = Some 0, old_stderr = Some 1,
       my_stdout = Some 2, my_stderr = Some 3 \<rparr>"
  by (simp add: entered_ctx_def enter_init_w0)

lemma entered_world_fields:
  "entered_world =
     \<lparr> streams = (\<lambda>_. []), fresh = 4, sys_stdout = Some 2, sys_stderr = Some 3, sent = [] \<rparr>"
  by (simp add: entered_world_def enter_init_w0)

text \<open>\<^verbatim>\<open>__exit__\<close> restores the two standard streams first, sends nothing and never
  returns normally: the title needs \<^verbatim>\<open>sec_to_hms\<close> of a float.\<close>

lemma exit_restores:
  "sys_stdout (snd (exit fl now self w)) = old_stdout self \<and>
   sys_stderr (snd (exit fl now self w)) = old_stderr self"
  by (auto simp add: exit_def Let_def get_status_message_def getvalue_def write_text_def
      sec_to_hms_float split: option.splits sum.splits prod.splits)

lemma exit_sends_nothing: "sent (snd (exit fl now self w)) = sent w"
  by (auto simp add: exit_def Let_def get_status_message_def getvalue_def write_text_def
      sec_to_hms_float split: option.splits sum.splits prod.splits)

lemma exit_raises: "\<exists>e. fst (exit fl now self w) = Inl e"
  by (auto simp add: exit_def Let_def get_status_message_def getvalue_def write_text_def
      sec_to_hms_float split: option.splits sum.splits prod.splits)

text \<open>The classification reads the capture sinks only, not the standard streams.\<close>

lemma getvalue_sys:
  "getvalue r (w\<lparr>sys_stdout := a, sys_stderr := b\<rparr>) = getvalue r w"
  by (cases r) (simp_all add: getvalue_def)

lemma get_status_message_sys:
  "get_status_message self (w\<lparr>sys_stdout := a, sys_stderr := b\<rparr>) = get_status_message self w"
  by (simp add: get_status_message_def getvalue_sys split: sum.splits)

lemma exit_entered:
  assumes "start_time self = Some t_enter"
    and "my_stderr self = Some err" and "my_stdout self = Some out"
    and "old_stderr self = Some real_err" and "old_stdout self = Some real_out"
  shows "exit fl now self w =
           (Inl (ValueError (''Unknown format code '' @ quoted ''d''
                               @ '' for object of type '' @ quoted ''float'')),
            w\<lparr>sys_stdout := Some real_out, sys_stderr := Some real_err,
              streams :=
                (if streams w err \<noteq> []
                 then (streams w)(real_err := streams w real_err @ streams w err)
                 else (streams w)(real_out := streams w real_out @ streams w out))\<rparr>)"
  using assms
  by (simp add: exit_def get_status_message_def getvalue_def write_text_def sec_to_hms_float)

text \<open>In a \<^verbatim>\<open>with\<close> statement the session is never entered: the call of
  \<^verbatim>\<open>__enter__\<close> lacks the label, the body does not run and the process is as
  before.\<close>

lemma with_statement_TypeError:
  "with_statement fl t_enter t_exit body w =
     (Inl (TypeError (''PushContext.__enter__() missing 1 required positional ''
                        @ ''argument: '' @ quoted ''block_label'')), w)"
  by (simp add: with_statement_def call_enter_def)

text \<open>
  C6. Specified: on every exit path the streams are restored and an exception of the
  body goes on to the caller after restoration and reporting. The code, at a body that
  raises \<^verbatim>\<open>RuntimeError("x")\<close>: inside the bracket by hand the streams are restored,
  but \<^verbatim>\<open>__exit__\<close> raises \<^verbatim>\<open>ValueError\<close> itself, which reaches the caller in
  place of the body's exception, and nothing is reported; inside a \<^verbatim>\<open>with\<close>
  statement the caller gets the \<^verbatim>\<open>TypeError\<close> of the entry and the body never
  runs.
\<close>

theorem scoped_replaces_body_exception:
  "fst (scoped fl t_enter t_exit ''job'' (raising (Exn ''RuntimeError'' True ''x'')) w0) =
     Inl (ValueError (''Unknown format code '' @ quoted ''d''
                        @ '' for object of type '' @ quoted ''float'')) \<and>
   sent (snd (scoped fl t_enter t_exit ''job'' (raising (Exn ''RuntimeError'' True ''x'')) w0))
     = [] \<and>
   sys_stdout (snd (scoped fl t_enter t_exit ''job''
                      (raising (Exn ''RuntimeError'' True ''x'')) w0)) = Some 0 \<and>
   sys_stderr (snd (scoped fl t_enter t_exit ''job''
                      (raising (Exn ''RuntimeError'' True ''x'')) w0)) = Some 1 \<and>
   with_statement fl t_enter t_exit (raising (Exn ''RuntimeError'' True ''x'')) w0 =
     (Inl (TypeError (''PushContext.__enter__() missing 1 required positional ''
                        @ ''argument: '' @ quoted ''block_label'')), w0)"
  by (simp add: scoped_def enter_init_w0 try_finally_def raising_def exit_entered
      with_statement_TypeError)

text \<open>
  C7. With both capture sinks in place, the status is \<^verbatim>\<open>failed\<close> exactly when the
  captured error text is not empty, and then the message is that text; otherwise the
  status is \<^verbatim>\<open>succeeded\<close> and the message is the captured output text. The method
  reads the two sinks and nothing else: it has no argument that says whether the body
  raised.
\<close>

theorem get_status_message_by_content:
  assumes "my_stderr self = Some err" and "my_stdout self = Some out"
  shows "get_status_message self w =
           Inr (if streams w err \<noteq> [] then (''failed'', streams w err)
                else (''succeeded'', streams w out)) \<and>
         ((\<exists>message. get_status_message self w = Inr (''failed'', message))
            \<longleftrightarrow> streams w err \<noteq> [])"
  using assms by (simp add: get_status_message_def getvalue_def)


theorem get_status_message_by_content_witness:
  "my_stderr (entered_ctx (0::int)) = Some 3 \<and> my_stdout (entered_ctx (0::int)) = Some 2 \<and>
   get_status_message (entered_ctx (0::int)) (snd (write_err ''oops'' entered_world)) =
     Inr (''failed'', ''oops'') \<and>
   get_status_message (entered_ctx (0::int)) (snd (write_out ''hello'' entered_world)) =
     Inr (''succeeded'', ''hello'')"
proof -
  have err: "my_stderr (entered_ctx (0::int)) = Some 3"
    and out: "my_stdout (entered_ctx (0::int)) = Some 2"
    by (simp_all add: entered_ctx_fields)
  show ?thesis
    using get_status_message_by_content [OF err out, of "snd (write_err ''oops'' entered_world)"]
      get_status_message_by_content [OF err out, of "snd (write_out ''hello'' entered_world)"]
      err out
    by (simp add: entered_world_fields write_err_def write_out_def write_text_def)
qed

text \<open>
  C8. For an entered session in a process that had both standard streams, \<^verbatim>\<open>__exit__\<close>
  leaves the standard streams restored and the classified message appended to the
  restored error stream when the status is \<^verbatim>\<open>failed\<close>, to the restored output stream
  otherwise; no other stream changes.
\<close>

theorem exit_echoes_to_restored_stream:
  assumes "start_time self = Some t_enter"
    and "old_stdout self = Some real_out" and "old_stderr self = Some real_err"
    and "get_status_message self w = Inr (status, message)"
  shows "sys_stdout (snd (exit fl now self w)) = Some real_out \<and>
         sys_stderr (snd (exit fl now self w)) = Some real_err \<and>
         streams (snd (exit fl now self w)) =
           (if status = ''failed''
            then (streams w)(real_err := streams w real_err @ message)
            else (streams w)(real_out := streams w real_out @ message))"
  using assms by (simp add: exit_def get_status_message_sys write_text_def sec_to_hms_float)

theorem exit_echoes_to_restored_stream_witness:
  "start_time (entered_ctx (0::int)) = Some 0 \<and>
   old_stdout (entered_ctx (0::int)) = Some 0 \<and> old_stderr (entered_ctx (0::int)) = Some 1 \<and>
   get_status_message (entered_ctx (0::int)) (snd (write_err ''oops'' entered_world)) =
     Inr (''failed'', ''oops'') \<and>
   sys_stdout (snd (exit whole_seconds 5 (entered_ctx 0) (snd (write_err ''oops'' entered_world))))
     = Some 0 \<and>
   sys_stderr (snd (exit whole_seconds 5 (entered_ctx 0) (snd (write_err ''oops'' entered_world))))
     = Some 1 \<and>
   map (streams (snd (exit whole_seconds 5 (entered_ctx 0)
                        (snd (write_err ''oops'' entered_world))))) [0, 1, 2, 3]
     = [[], ''oops'', [], ''oops'']"
proof -
  have started: "start_time (entered_ctx (0::int)) = Some 0"
    and out: "old_stdout (entered_ctx (0::int)) = Some 0"
    and err: "old_stderr (entered_ctx (0::int)) = Some 1"
    by (simp_all add: entered_ctx_fields)
  have failed: "get_status_message (entered_ctx (0::int)) (snd (write_err ''oops'' entered_world))
                  = Inr (''failed'', ''oops'')"
    by (simp add: get_status_message_def getvalue_def entered_ctx_fields entered_world_fields
        write_err_def write_text_def)
  show ?thesis
    using exit_echoes_to_restored_stream [OF started out err failed, of whole_seconds 5]
      started out err failed
    by (simp add: entered_world_fields write_err_def write_text_def)
qed

text \<open>
  C9. Specified: at scope exit exactly one notification is sent, titled
  \<^verbatim>\<open>{label} {status} after {HH:MM:SS}\<close>. The code, at a session entered with label
  \<^verbatim>\<open>job\<close> whose body wrote \<^verbatim>\<open>hello\<close> to the standard output: \<^verbatim>\<open>__exit__\<close> raises
  \<^verbatim>\<open>ValueError\<close> while it builds the title, and no notification is sent.
\<close>

theorem exit_after_hello_sends_nothing:
  "fst (exit fl t_exit (entered_ctx t_enter) (snd (write_out ''hello'' entered_world))) =
     Inl (ValueError (''Unknown format code '' @ quoted ''d''
                        @ '' for object of type '' @ quoted ''float'')) \<and>
   sent (snd (exit fl t_exit (entered_ctx t_enter) (snd (write_out ''hello'' entered_world))))
     = []"
  by (simp add: exit_entered [where t_enter = t_enter and err = 3 and out = 2 and real_err = 1
        and real_out = 0] entered_ctx_fields entered_world_fields write_out_def write_text_def)

text \<open>
  C10. With both capture sinks in place and empty, the status is \<^verbatim>\<open>succeeded\<close> and
  the message is the empty string.
\<close>

theorem get_status_message_nothing_captured:
  assumes "my_stderr self = Some err" and "my_stdout self = Some out"
    and "streams w err = []" and "streams w out = []"
  shows "get_status_message self w = Inr (''succeeded'', [])"
  using assms by (simp add: get_status_message_def getvalue_def)

theorem get_status_message_nothing_captured_witness:
  "my_stderr (entered_ctx (0::int)) = Some 3 \<and> my_stdout (entered_ctx (0::int)) = Some 2 \<and>
   streams entered_world 3 = [] \<and> streams entered_world 2 = [] \<and>
   get_status_message (entered_ctx (0::int)) entered_world = Inr (''succeeded'', [])"
proof -
  have err: "my_stderr (entered_ctx (0::int)) = Some 3"
    and out: "my_stdout (entered_ctx (0::int)) = Some 2"
    by (simp_all add: entered_ctx_fields)
  have quiet_err: "streams entered_world 3 = []" and quiet_out: "streams entered_world 2 = []"
    by (simp_all add: entered_world_fields)
  show ?thesis
    using get_status_message_nothing_captured [OF err out quiet_err quiet_out]
      err out quiet_err quiet_out
    by simp
qed

end
